theory Spec2Isabelle
  imports Complex_Main "HOL-Library.AList"
begin

section \<open>RecyWise wizard: the state of \<open>App.jsx\<close> and its handlers\<close>

text \<open>
  The component \<open>App\<close> of \<open>src/frontend/src/App.jsx\<close> keeps seven \<open>useState\<close> cells and
  renders one of nine screens. The model below has one record for the cells, one function
  per handler of the source, a function \<open>renderScreen\<close> that lists the controls a screen
  offers, and a step function whose events are the user's clicks and edits and the
  settlement of the two \<open>axios\<close> promises.

  JavaScript values: the fields of the vehicle record are strings when typed into the
  form and whatever the decoder sent otherwise (the handler stores them unchecked); the
  material percentages are strings while typed and numbers after \<open>onBlur\<close>. Numbers are modelled as
  rationals: the rounding of binary floating point is left out, and \<open>NaN\<close> and the
  infinities do not occur in JSON.
\<close>

subsection \<open>Values and domain records\<close>

text \<open>
  The values that can sit in a field of the vehicle record or in a cell of the material
  table: what JSON carries, and \<open>undefined\<close> for a key the response does not have.
  \<open>JObject\<close> stands for any array or object; the program never looks inside one.
\<close>

datatype jsval = JUndefined | JNull | JBool bool | JNum rat | JStr string | JObject

text \<open>JavaScript truthiness, as used by \<open>!vehicleData.year\<close>.\<close>

fun truthy :: "jsval \<Rightarrow> bool" where
  "truthy JUndefined = False"
| "truthy JNull = False"
| "truthy (JBool b) = b"
| "truthy (JNum r) = (r \<noteq> 0)"
| "truthy (JStr s) = (s \<noteq> [])"
| "truthy JObject = True"

text \<open>The field \<open>make\<close> is written \<open>make'\<close>: \<open>make\<close> is taken by the record package.\<close>

record vehicle =
  year :: jsval
  make' :: jsval
  model :: jsval

type_synonym composition = "(string \<times> jsval) list"

record step_entry =
  sequence :: int
  action :: string
  projected_profit :: rat

text \<open>
  The requests handed to \<open>axios\<close> and not yet settled. This list is not a cell of the
  component: it records the promises the handlers are awaiting, with the VIN of the URL
  and the payload of the POST.
\<close>

datatype request = DecodeVin string | GeneratePathway vehicle composition

datatype response = DecodeOk vehicle | PathwayOk "step_entry list" | Failed

record state =
  screen :: int
  isLoading :: bool
  errorMsg :: string
  vin :: string
  vehicleData :: vehicle
  materials :: composition
  pathway :: "step_entry list option"
  outstanding :: "request list"

definition initialMaterials :: composition where
  "initialMaterials =
     [(''Steel'', JNum 0), (''Aluminum'', JNum 0), (''Copper'', JNum 0),
      (''Plastics'', JNum 0), (''Rubber'', JNum 0), (''Glass'', JNum 0)]"

definition initial :: state where
  "initial = \<lparr>screen = 1, isLoading = False, errorMsg = [], vin = [],
     vehicleData = \<lparr>year = JStr [], make' = JStr [], model = JStr []\<rparr>,
     materials = initialMaterials, pathway = None, outstanding = []\<rparr>"

subsection \<open>API handlers\<close>

text \<open>
  \<open>handleVinSubmit\<close> is an \<open>async\<close> function: the part before \<open>await\<close> runs in the click
  event, the \<open>try\<close> continuation or the \<open>catch\<close> block runs when the promise settles, and
  \<open>finally\<close> runs after either.
\<close>

definition handleVinSubmit_begin :: "state \<Rightarrow> state" where
  "handleVinSubmit_begin s =
     s\<lparr>isLoading := True, errorMsg := [],
       outstanding := outstanding s @ [DecodeVin (vin s)]\<rparr>"

definition handleVinSubmit_resolve :: "vehicle \<Rightarrow> state \<Rightarrow> state" where
  "handleVinSubmit_resolve d s =
     s\<lparr>vehicleData := \<lparr>year = year d, make' = make' d, model = model d\<rparr>,
       screen := 4, isLoading := False\<rparr>"

definition handleVinSubmit_reject :: "state \<Rightarrow> state" where
  "handleVinSubmit_reject s = s\<lparr>screen := 3, isLoading := False\<rparr>"

definition handleManualVehicleSubmit :: "state \<Rightarrow> state" where
  "handleManualVehicleSubmit s =
     (if \<not> truthy (year (vehicleData s)) \<or> \<not> truthy (make' (vehicleData s))
         \<or> \<not> truthy (model (vehicleData s))
      then s\<lparr>errorMsg := ''Please fill in all fields.''\<rparr>
      else s\<lparr>errorMsg := [], screen := 4\<rparr>)"

definition handleSaveManualMaterials :: "state \<Rightarrow> state" where
  "handleSaveManualMaterials s = s\<lparr>screen := 6\<rparr>"

definition handleGeneratePathway_begin :: "state \<Rightarrow> state" where
  "handleGeneratePathway_begin s =
     s\<lparr>screen := 8,
       outstanding := outstanding s @ [GeneratePathway (vehicleData s) (materials s)]\<rparr>"

definition handleGeneratePathway_resolve :: "step_entry list \<Rightarrow> state \<Rightarrow> state" where
  "handleGeneratePathway_resolve p s = s\<lparr>pathway := Some p, screen := 9\<rparr>"

definition handleGeneratePathway_reject :: "state \<Rightarrow> state" where
  "handleGeneratePathway_reject s =
     s\<lparr>errorMsg := ''Failed to generate pathway.'', screen := 6\<rparr>"

subsection \<open>Rendering\<close>

datatype control =
    BtnBack | BtnStart | InpVin | BtnProceed
  | InpYear | InpMake | InpModel | BtnConfirmVehicle
  | BtnYes | BtnNo | BtnAI | BtnManual
  | BtnGenerate | BtnEditValues | InpMaterial string | BtnSave | BtnNext

text \<open>
  What a rendered screen shows, as far as the handlers and the claims are concerned: the
  title, the controls that accept input (a disabled button is left out), the error text
  (empty when the error box is not rendered), the text of the profit summary, and whether
  the \<open>default\<close> branch of the \<open>switch\<close> was taken.
\<close>

record view =
  title :: "string option"
  controls :: "control list"
  errorText :: string
  profitValue :: "string option"
  notFound :: bool

definition Container :: "string option \<Rightarrow> int \<Rightarrow> string \<Rightarrow> control list \<Rightarrow> view" where
  "Container ttl scr err children =
     \<lparr>title = ttl,
      controls = (if scr > 1 then [BtnBack] else []) @ children,
      errorText = err, profitValue = None, notFound = False\<rparr>"

text \<open>\<open>Number.prototype.toFixed(2)\<close> on a rational below \<open>10^21\<close> in magnitude.\<close>

definition digitChar :: "nat \<Rightarrow> char" where
  "digitChar d = ''0123456789'' ! d"

fun natToString :: "nat \<Rightarrow> string" where
  "natToString n =
     (if n < 10 then [digitChar n] else natToString (n div 10) @ [digitChar (n mod 10)])"

declare natToString.simps [simp del]

definition toFixed2 :: "rat \<Rightarrow> string option" where
  "toFixed2 x =
     (if 10 ^ 21 \<le> \<bar>x\<bar> then None
      else
        let sgn = (if x < 0 then ''-'' else []);
            n = nat \<lfloor>\<bar>x\<bar> * 100 + 1 / 2\<rfloor>;
            m = natToString n;
            m = (if length m \<le> 2 then replicate (3 - length m) (CHR ''0'') @ m else m);
            k = length m
        in Some (sgn @ take (k - 2) m @ ''.'' @ drop (k - 2) m))"

definition totalProfit :: "step_entry list option \<Rightarrow> string option" where
  "totalProfit p =
     (case p of
        None \<Rightarrow> Some ''0.00''
      | Some entries \<Rightarrow> toFixed2 (foldl (\<lambda>sum e. sum + projected_profit e) 0 entries))"

definition renderScreen :: "state \<Rightarrow> view" where
  "renderScreen s =
     (if screen s = 1 then
        \<lparr>title = None, controls = [BtnStart], errorText = [], profitValue = None,
         notFound = False\<rparr>
      else if screen s = 2 then
        Container (Some ''Smart Vehicle Recycling'') (screen s) (errorMsg s)
          (InpVin # (if isLoading s \<or> length (vin s) < 5 then [] else [BtnProceed]))
      else if screen s = 3 then
        Container (Some ''Manual Identification'') (screen s) (errorMsg s)
          [InpYear, InpMake, InpModel, BtnConfirmVehicle]
      else if screen s = 4 then
        Container (Some ''Confirm Vehicle'') (screen s) (errorMsg s) [BtnYes, BtnNo]
      else if screen s = 5 then
        Container (Some ''Material Estimation'') (screen s) (errorMsg s) [BtnAI, BtnManual]
      else if screen s = 6 then
        Container (Some ''Review Composition'') (screen s) (errorMsg s)
          [BtnGenerate, BtnEditValues]
      else if screen s = 7 then
        Container (Some ''Edit Material Composition'') (screen s) (errorMsg s)
          (map InpMaterial (map fst (materials s)) @ [BtnSave])
      else if screen s = 8 then
        Container None (screen s) [] []
      else if screen s = 9 then
        (Container (Some ''Optimized Recycling Pathway'') (screen s) (errorMsg s) [BtnNext])
          \<lparr>profitValue := totalProfit (pathway s)\<rparr>
      else
        \<lparr>title = None, controls = [], errorText = [], profitValue = None,
         notFound = True\<rparr>)"

definition enabled :: "state \<Rightarrow> control \<Rightarrow> bool" where
  "enabled s c = (c \<in> set (controls (renderScreen s)))"

subsection \<open>Event handlers of the controls\<close>

text \<open>\<open>toUpperCase\<close> on the ASCII letters; other characters are left as they are.\<close>

definition toUpperChar :: "char \<Rightarrow> char" where
  "toUpperChar c =
     (case map_of (zip ''abcdefghijklmnopqrstuvwxyz'' ''ABCDEFGHIJKLMNOPQRSTUVWXYZ'') c of
        None \<Rightarrow> c
      | Some u \<Rightarrow> u)"

definition toUpperCase :: "string \<Rightarrow> string" where
  "toUpperCase v = map toUpperChar v"

fun onClick :: "control \<Rightarrow> state \<Rightarrow> state" where
  "onClick BtnBack s = s\<lparr>screen := screen s - 1\<rparr>"
| "onClick BtnStart s = s\<lparr>screen := 2\<rparr>"
| "onClick BtnProceed s = handleVinSubmit_begin s"
| "onClick BtnConfirmVehicle s = handleManualVehicleSubmit s"
| "onClick BtnYes s = s\<lparr>screen := 5\<rparr>"
| "onClick BtnNo s = s\<lparr>vin := [], screen := 2\<rparr>"
| "onClick BtnAI s = s"
| "onClick BtnManual s = s\<lparr>screen := 7\<rparr>"
| "onClick BtnGenerate s = handleGeneratePathway_begin s"
| "onClick BtnEditValues s = s\<lparr>screen := 7\<rparr>"
| "onClick BtnSave s = handleSaveManualMaterials s"
| "onClick BtnNext s = s\<lparr>screen := 1\<rparr>"
| "onClick InpVin s = s"
| "onClick InpYear s = s"
| "onClick InpMake s = s"
| "onClick InpModel s = s"
| "onClick (InpMaterial k) s = s"

fun onChange :: "control \<Rightarrow> string \<Rightarrow> state \<Rightarrow> state" where
  "onChange InpVin v s = s\<lparr>vin := toUpperCase v\<rparr>"
| "onChange InpYear v s = s\<lparr>vehicleData := (vehicleData s)\<lparr>year := JStr v\<rparr>\<rparr>"
| "onChange InpMake v s = s\<lparr>vehicleData := (vehicleData s)\<lparr>make' := JStr v\<rparr>\<rparr>"
| "onChange InpModel v s = s\<lparr>vehicleData := (vehicleData s)\<lparr>model := JStr v\<rparr>\<rparr>"
| "onChange (InpMaterial k) v s = s\<lparr>materials := AList.update k (JStr v) (materials s)\<rparr>"
| "onChange BtnBack v s = s"
| "onChange BtnStart v s = s"
| "onChange BtnProceed v s = s"
| "onChange BtnConfirmVehicle v s = s"
| "onChange BtnYes v s = s"
| "onChange BtnNo v s = s"
| "onChange BtnAI v s = s"
| "onChange BtnManual v s = s"
| "onChange BtnGenerate v s = s"
| "onChange BtnEditValues v s = s"
| "onChange BtnSave v s = s"
| "onChange BtnNext v s = s"

text \<open>
  \<open>onBlur\<close> of a material input: \<open>parseFloat\<close> is a builtin and is not modelled; the event
  carries its result, \<open>None\<close> standing for \<open>NaN\<close>.
\<close>

definition blurValue :: "string \<Rightarrow> rat option \<Rightarrow> rat" where
  "blurValue raw parsed =
     (if raw = [] then 0
      else case parsed of None \<Rightarrow> 0 | Some r \<Rightarrow> if r = 0 then 0 else r)"

definition onBlur :: "control \<Rightarrow> string \<Rightarrow> rat option \<Rightarrow> state \<Rightarrow> state" where
  "onBlur c raw parsed s =
     (case c of
        InpMaterial k \<Rightarrow>
          s\<lparr>materials := AList.update k (JNum (blurValue raw parsed)) (materials s)\<rparr>
      | _ \<Rightarrow> s)"

subsection \<open>Events and runs\<close>

datatype event =
    Click control
  | Change control string
  | Blur control string "rat option"
  | Settle nat response

fun settle :: "request \<Rightarrow> response \<Rightarrow> state \<Rightarrow> state option" where
  "settle (DecodeVin v) (DecodeOk d) s = Some (handleVinSubmit_resolve d s)"
| "settle (DecodeVin v) Failed s = Some (handleVinSubmit_reject s)"
| "settle (GeneratePathway d m) (PathwayOk p) s = Some (handleGeneratePathway_resolve p s)"
| "settle (GeneratePathway d m) Failed s = Some (handleGeneratePathway_reject s)"
| "settle (DecodeVin v) (PathwayOk p) s = None"
| "settle (GeneratePathway d m) (DecodeOk d') s = None"

text \<open>
  A user event is accepted when its control is rendered and enabled; the VIN input has
  \<open>maxLength = 17\<close>. \<open>Settle i r\<close> delivers the response \<open>r\<close> to the \<open>i\<close>-th outstanding
  request, which runs the continuation of the handler that issued it.
\<close>

fun step :: "event \<Rightarrow> state \<Rightarrow> state option" where
  "step (Click c) s = (if enabled s c then Some (onClick c s) else None)"
| "step (Change c v) s =
     (if enabled s c \<and> (if c = InpVin then length v \<le> 17 else True)
      then Some (onChange c v s) else None)"
| "step (Blur c raw parsed) s = (if enabled s c then Some (onBlur c raw parsed s) else None)"
| "step (Settle i r) s =
     (if i < length (outstanding s)
      then settle (outstanding s ! i) r
             (s\<lparr>outstanding := take i (outstanding s) @ drop (Suc i) (outstanding s)\<rparr>)
      else None)"

fun run :: "event list \<Rightarrow> state \<Rightarrow> state option" where
  "run [] s = Some s"
| "run (e # es) s = (case step e s of None \<Rightarrow> None | Some s' \<Rightarrow> run es s')"


fun isDecode :: "request \<Rightarrow> bool" where
  "isDecode (DecodeVin v) = True"
| "isDecode (GeneratePathway d m) = False"

fun noPathwayOk :: "event \<Rightarrow> bool" where
  "noPathwayOk (Settle i (PathwayOk p)) = False"
| "noPathwayOk e = True"

section \<open>Facts about rendering and single steps\<close>

text \<open>On which screen each control is rendered and enabled.\<close>

lemma enabled_iff [simp]:
  "enabled s BtnBack \<longleftrightarrow> 2 \<le> screen s \<and> screen s \<le> 9"
  "enabled s BtnStart \<longleftrightarrow> screen s = 1"
  "enabled s InpVin \<longleftrightarrow> screen s = 2"
  "enabled s BtnProceed \<longleftrightarrow> screen s = 2 \<and> \<not> isLoading s \<and> 5 \<le> length (vin s)"
  "enabled s InpYear \<longleftrightarrow> screen s = 3"
  "enabled s InpMake \<longleftrightarrow> screen s = 3"
  "enabled s InpModel \<longleftrightarrow> screen s = 3"
  "enabled s BtnConfirmVehicle \<longleftrightarrow> screen s = 3"
  "enabled s BtnYes \<longleftrightarrow> screen s = 4"
  "enabled s BtnNo \<longleftrightarrow> screen s = 4"
  "enabled s BtnAI \<longleftrightarrow> screen s = 5"
  "enabled s BtnManual \<longleftrightarrow> screen s = 5"
  "enabled s BtnGenerate \<longleftrightarrow> screen s = 6"
  "enabled s BtnEditValues \<longleftrightarrow> screen s = 6"
  "enabled s (InpMaterial k) \<longleftrightarrow> screen s = 7 \<and> k \<in> fst ` set (materials s)"
  "enabled s BtnSave \<longleftrightarrow> screen s = 7"
  "enabled s BtnNext \<longleftrightarrow> screen s = 9"
  by (auto simp: enabled_def renderScreen_def Container_def)

lemmas handler_defs =
  handleVinSubmit_begin_def handleVinSubmit_resolve_def handleVinSubmit_reject_def
  handleManualVehicleSubmit_def handleSaveManualMaterials_def
  handleGeneratePathway_begin_def handleGeneratePathway_resolve_def
  handleGeneratePathway_reject_def

lemma onClick_screen:
  "enabled s c \<Longrightarrow> 1 \<le> screen (onClick c s) \<and> screen (onClick c s) \<le> 9"
  by (cases c) (auto simp: handler_defs)

lemma onChange_screen [simp]: "screen (onChange c v s) = screen s"
  by (cases c) auto

lemma onBlur_screen [simp]: "screen (onBlur c raw parsed s) = screen s"
  by (cases c) (auto simp: onBlur_def)

lemma settle_screen:
  "settle q r s = Some s' \<Longrightarrow> 1 \<le> screen s' \<and> screen s' \<le> 9"
  by (cases q; cases r) (auto simp: handler_defs)

lemma step_screen:
  "step e s = Some s' \<Longrightarrow> 1 \<le> screen s \<and> screen s \<le> 9
     \<Longrightarrow> 1 \<le> screen s' \<and> screen s' \<le> 9"
proof (cases e)
  case (Click c)
  assume "step e s = Some s'"
  with Click show ?thesis using onClick_screen [of s c] by (auto split: if_splits)
next
  case (Settle i r)
  assume "step e s = Some s'"
  with Settle show ?thesis by (auto split: if_splits dest: settle_screen)
qed (auto split: if_splits)

lemma run_screen:
  "run evs s = Some s' \<Longrightarrow> 1 \<le> screen s \<and> screen s \<le> 9
     \<Longrightarrow> 1 \<le> screen s' \<and> screen s' \<le> 9"
proof (induction evs arbitrary: s)
  case Nil
  then show ?case by simp
next
  case (Cons e evs)
  then obtain t where t: "step e s = Some t" "run evs t = Some s'"
    by (auto split: option.splits)
  from step_screen [OF t(1) Cons.prems(2)] Cons.IH [OF t(2)] show ?case by blast
qed

lemmas eval_defs = initial_def initialMaterials_def handler_defs toUpperCase_def toUpperChar_def
  onBlur_def blurValue_def

subsection \<open>While a VIN decode is awaited\<close>






subsection \<open>Settled requests\<close>


lemma settle_pathway_failed:
  "step (Settle i Failed) s = Some s' \<Longrightarrow> \<not> isDecode (outstanding s ! i) \<Longrightarrow>
     screen s' = 6 \<and> errorMsg s' = ''Failed to generate pathway.'' \<and> pathway s' = pathway s
     \<and> vehicleData s' = vehicleData s \<and> isLoading s' = isLoading s"
  by (cases "outstanding s ! i") (auto simp: handler_defs split: if_splits)

lemma settle_decode_ok:
  "step (Settle i (DecodeOk d)) s = Some s' \<Longrightarrow>
     isDecode (outstanding s ! i) \<and> screen s' = 4 \<and> vehicleData s' = d \<and> \<not> isLoading s'"
  by (cases "outstanding s ! i") (auto simp: handler_defs split: if_splits)

lemma settle_pathway_ok:
  "step (Settle i (PathwayOk p)) s = Some s' \<Longrightarrow>
     \<not> isDecode (outstanding s ! i) \<and> screen s' = 9 \<and> pathway s' = Some p
     \<and> isLoading s' = isLoading s"
  by (cases "outstanding s ! i") (auto simp: handler_defs split: if_splits)

subsection \<open>Who writes the pathway\<close>

lemma step_pathway:
  assumes "noPathwayOk e" "step e t = Some t'"
  shows "pathway t' = pathway t"
proof (cases e)
  case (Click c)
  with assms show ?thesis by (cases c) (auto simp: handler_defs split: if_splits)
next
  case (Change c v)
  with assms show ?thesis by (cases c) (auto split: if_splits)
next
  case (Blur c raw parsed)
  with assms show ?thesis by (cases c) (auto simp: onBlur_def split: if_splits)
next
  case (Settle i r)
  show ?thesis
  proof (cases r)
    case (DecodeOk d)
    with Settle assms show ?thesis
      by (cases "outstanding t ! i") (auto simp: handler_defs split: if_splits)
  next
    case (PathwayOk p)
    with Settle assms show ?thesis by simp
  next
    case Failed
    with Settle assms show ?thesis
      by (cases "outstanding t ! i") (auto simp: handler_defs split: if_splits)
  qed
qed

lemma run_pathway:
  "list_all noPathwayOk evs \<Longrightarrow> run evs t = Some t' \<Longrightarrow> pathway t' = pathway t"
proof (induction evs arbitrary: t)
  case Nil
  then show ?case by simp
next
  case (Cons e evs)
  from Cons.prems(2) obtain u where u: "step e t = Some u" "run evs u = Some t'"
    by (auto split: option.splits)
  from Cons.prems(1) have "noPathwayOk e" "list_all noPathwayOk evs" by simp_all
  with u Cons.IH [of u] step_pathway [of e t u] show ?case by simp
qed

subsection \<open>Formatting the total\<close>

lemma floor_rat_numeral_divide [simp]:
  "\<lfloor>(numeral a :: rat) / numeral b\<rfloor> = numeral a div numeral b"
  using floor_divide_of_int_eq [of "numeral a" "numeral b", where ?'a = rat] by simp

lemma natToString_9050: "natToString 9050 = ''9050''"
  by (simp add: natToString.simps [of 9050] natToString.simps [of 905]
      natToString.simps [of 90] natToString.simps [of 9] digitChar_def)

subsection \<open>The in-flight flag counts the VIN requests\<close>

lemma filter_remove_nth:
  assumes "i < length xs"
  shows "length (filter P (take i xs @ drop (Suc i) xs))
           = length (filter P xs) - (if P (xs ! i) then 1 else 0)"
proof -
  have "take i xs @ xs ! i # drop (Suc i) xs = xs"
    using assms by (rule id_take_nth_drop [symmetric])
  then have "length (filter P xs) = length (filter P (take i xs @ xs ! i # drop (Suc i) xs))"
    by simp
  then show ?thesis by simp
qed

lemma onChange_requests [simp]:
  "outstanding (onChange c v s) = outstanding s" "isLoading (onChange c v s) = isLoading s"
  by (cases c; simp)+

lemma onBlur_requests [simp]:
  "outstanding (onBlur c raw parsed s) = outstanding s"
  "isLoading (onBlur c raw parsed s) = isLoading s"
  by (cases c; simp add: onBlur_def)+

lemma step_decode_flag:
  assumes "step e s = Some s'"
    and "length (filter isDecode (outstanding s)) = (if isLoading s then 1 else 0)"
  shows "length (filter isDecode (outstanding s')) = (if isLoading s' then 1 else 0)"
proof (cases e)
  case (Click c)
  with assms show ?thesis by (cases c) (auto simp: handler_defs split: if_splits)
next
  case (Change c v)
  with assms show ?thesis by (auto split: if_splits)
next
  case (Blur c raw parsed)
  with assms show ?thesis by (auto split: if_splits)
next
  case (Settle i r)
  with assms(1) have i: "i < length (outstanding s)" by (auto split: if_splits)
  note n = filter_remove_nth [OF i, of isDecode]
  from Settle assms i n show ?thesis
    by (cases r; cases "outstanding s ! i") (auto simp: handler_defs split: if_splits)
qed

lemma run_decode_flag:
  "run evs s = Some s' \<Longrightarrow>
   length (filter isDecode (outstanding s)) = (if isLoading s then 1 else 0) \<Longrightarrow>
   length (filter isDecode (outstanding s')) = (if isLoading s' then 1 else 0)"
proof (induction evs arbitrary: s)
  case Nil
  then show ?case by simp
next
  case (Cons e evs)
  from Cons.prems(1) obtain u where u: "step e s = Some u" "run evs u = Some s'"
    by (auto split: option.splits)
  from Cons.IH [OF u(2) step_decode_flag [OF u(1) Cons.prems(2)]] show ?case .
qed

section \<open>The claims\<close>

text \<open>
  C1. Along every sequence of events accepted from the initial state (Step 1), whether user
  actions or settled requests, the Step stays within 1..9. Back is rendered only on steps
  2..9, so it never takes the Step below 1; every other transition writes a constant
  between 1 and 9. Every prefix of an accepted sequence is itself accepted, so the bound
  holds after each single transition.
\<close>

theorem step_within_bounds:
  "run evs initial = Some s \<Longrightarrow> 1 \<le> screen s \<and> screen s \<le> 9"
  using run_screen [of evs initial s] by (simp add: initial_def)

theorem step_within_bounds_witness:
  "run [Click BtnStart, Change InpVin ''1HGBH'', Click BtnProceed,
        Settle 0 (DecodeOk \<lparr>year = JNum 2015, make' = JStr ''Toyota'', model = JStr ''Camry''\<rparr>),
        Click BtnYes, Click BtnManual, Click BtnSave, Click BtnGenerate, Click BtnBack,
        Settle 0 (PathwayOk
          [\<lparr>sequence = 1, action = ''Dismantle'', projected_profit = 241 / 2\<rparr>])]
       initial
     = Some (initial\<lparr>screen := 9, vin := ''1HGBH'',
         vehicleData := \<lparr>year = JNum 2015, make' = JStr ''Toyota'', model = JStr ''Camry''\<rparr>,
         pathway :=
           Some [\<lparr>sequence = 1, action = ''Dismantle'', projected_profit = 241 / 2\<rparr>]\<rparr>)
   \<and> 1 \<le> screen (initial\<lparr>screen := 9, vin := ''1HGBH'',
         vehicleData := \<lparr>year = JNum 2015, make' = JStr ''Toyota'', model = JStr ''Camry''\<rparr>,
         pathway :=
           Some [\<lparr>sequence = 1, action = ''Dismantle'', projected_profit = 241 / 2\<rparr>]\<rparr>)
   \<and> screen (initial\<lparr>screen := 9, vin := ''1HGBH'',
         vehicleData := \<lparr>year = JNum 2015, make' = JStr ''Toyota'', model = JStr ''Camry''\<rparr>,
         pathway :=
           Some [\<lparr>sequence = 1, action = ''Dismantle'', projected_profit = 241 / 2\<rparr>]\<rparr>) \<le> 9"
proof -
  have r: "run [Click BtnStart, Change InpVin ''1HGBH'', Click BtnProceed,
        Settle 0 (DecodeOk \<lparr>year = JNum 2015, make' = JStr ''Toyota'', model = JStr ''Camry''\<rparr>),
        Click BtnYes, Click BtnManual, Click BtnSave, Click BtnGenerate, Click BtnBack,
        Settle 0 (PathwayOk
          [\<lparr>sequence = 1, action = ''Dismantle'', projected_profit = 241 / 2\<rparr>])]
       initial
     = Some (initial\<lparr>screen := 9, vin := ''1HGBH'',
         vehicleData := \<lparr>year = JNum 2015, make' = JStr ''Toyota'', model = JStr ''Camry''\<rparr>,
         pathway :=
           Some [\<lparr>sequence = 1, action = ''Dismantle'', projected_profit = 241 / 2\<rparr>]\<rparr>)"
    by (simp add: initial_def handler_defs toUpperCase_def toUpperChar_def)
  from step_within_bounds [OF r] r show ?thesis by blast
qed

text \<open>
  C2. A VIN submission is a click on Proceed, which is enabled only when the VIN has at
  least 5 characters and no decode is in flight; it issues one decode request for the
  current VIN. Whatever happens in between, when that request succeeds with the payload
  \<open>d\<close> the state has Step 4 and the vehicle record equals \<open>d\<close>.
\<close>

theorem vin_decode_success:
  assumes "step (Click BtnProceed) s = Some s1"
    and "run evs s1 = Some s2"
    and "step (Settle i (DecodeOk d)) s2 = Some s3"
  shows "5 \<le> length (vin s) \<and> outstanding s1 = outstanding s @ [DecodeVin (vin s)]
     \<and> screen s3 = 4 \<and> vehicleData s3 = d"
proof -
  from assms(1) have "5 \<le> length (vin s)" "s1 = handleVinSubmit_begin s"
    by (auto split: if_splits)
  then have "5 \<le> length (vin s)" "outstanding s1 = outstanding s @ [DecodeVin (vin s)]"
    by (simp_all add: handleVinSubmit_begin_def)
  with settle_decode_ok [OF assms(3)] show ?thesis by simp
qed

theorem vin_decode_success_witness:
  "step (Click BtnProceed) (initial\<lparr>screen := 2, vin := ''1HGBH''\<rparr>)
     = Some (initial\<lparr>screen := 2, isLoading := True, vin := ''1HGBH'',
               outstanding := [DecodeVin ''1HGBH'']\<rparr>)
   \<and> run [Click BtnBack, Click BtnStart]
        (initial\<lparr>screen := 2, isLoading := True, vin := ''1HGBH'',
               outstanding := [DecodeVin ''1HGBH'']\<rparr>)
     = Some (initial\<lparr>screen := 2, isLoading := True, vin := ''1HGBH'',
               outstanding := [DecodeVin ''1HGBH'']\<rparr>)
   \<and> step (Settle 0 (DecodeOk \<lparr>year = JNum 2015, make' = JStr ''Toyota'', model = JStr ''Camry''\<rparr>))
        (initial\<lparr>screen := 2, isLoading := True, vin := ''1HGBH'',
               outstanding := [DecodeVin ''1HGBH'']\<rparr>)
     = Some (initial\<lparr>screen := 4, vin := ''1HGBH'',
               vehicleData := \<lparr>year = JNum 2015, make' = JStr ''Toyota'', model = JStr ''Camry''\<rparr>\<rparr>)
   \<and> screen (initial\<lparr>screen := 4, vin := ''1HGBH'',
               vehicleData := \<lparr>year = JNum 2015, make' = JStr ''Toyota'', model = JStr ''Camry''\<rparr>\<rparr>) = 4
   \<and> vehicleData (initial\<lparr>screen := 4, vin := ''1HGBH'',
               vehicleData := \<lparr>year = JNum 2015, make' = JStr ''Toyota'', model = JStr ''Camry''\<rparr>\<rparr>)
       = \<lparr>year = JNum 2015, make' = JStr ''Toyota'', model = JStr ''Camry''\<rparr>"
  (is "?h1 \<and> ?h2 \<and> ?h3 \<and> ?c1 \<and> ?c2")
proof -
  have h1: ?h1 by (simp add: eval_defs)
  have h2: ?h2 by (simp add: eval_defs)
  have h3: ?h3 by (simp add: eval_defs)
  from vin_decode_success [OF h1 h2 h3] h1 h2 h3 show ?thesis by blast
qed




text \<open>
  C4. Manual vehicle submission is meant to answer "Please fill in all fields." and keep
  the Step exactly when one of year, make and model is empty, and otherwise to clear the
  message and go to Step 4. \<open>handleManualVehicleSubmit\<close> tests the fields with
  JavaScript's \<open>!\<close>, which is also true of the number 0. The code at the failing input: the
  decoder delivers the year 0, Back leads from the confirmation step to the manual form,
  whose three fields are filled (the year input shows 0); Confirm Vehicle answers "Please
  fill in all fields." and stays on Step 3. The same year typed into the form, the string
  "0", is accepted and leads to Step 4.
\<close>

theorem manual_vehicle_submit_numeric_zero:
  "run [Click BtnStart, Change InpVin ''1hgbh'', Click BtnProceed,
        Settle 0 (DecodeOk \<lparr>year = JNum 0, make' = JStr ''Toyota'', model = JStr ''Camry''\<rparr>),
        Click BtnBack] initial
     = Some (initial\<lparr>screen := 3,
           vin := ''1HGBH'',
           vehicleData := \<lparr>year = JNum 0, make' = JStr ''Toyota'', model = JStr ''Camry''\<rparr>\<rparr>)
   \<and> step (Click BtnConfirmVehicle)
        (initial\<lparr>screen := 3,
           vin := ''1HGBH'',
           vehicleData := \<lparr>year = JNum 0, make' = JStr ''Toyota'', model = JStr ''Camry''\<rparr>\<rparr>)
     = Some (initial\<lparr>screen := 3,
           errorMsg := ''Please fill in all fields.'',
           vin := ''1HGBH'',
           vehicleData := \<lparr>year = JNum 0, make' = JStr ''Toyota'', model = JStr ''Camry''\<rparr>\<rparr>)
   \<and> run [Change InpYear ''0'', Click BtnConfirmVehicle]
        (initial\<lparr>screen := 3,
           vin := ''1HGBH'',
           vehicleData := \<lparr>year = JNum 0, make' = JStr ''Toyota'', model = JStr ''Camry''\<rparr>\<rparr>)
     = Some (initial\<lparr>screen := 4,
           vin := ''1HGBH'',
           vehicleData := \<lparr>year = JStr ''0'', make' = JStr ''Toyota'', model = JStr ''Camry''\<rparr>\<rparr>)"
  by (simp add: eval_defs)

text \<open>
  C5 (as the code has it). A pathway-generation request that fails always leaves Step 6
  and the error message "Failed to generate pathway.", which the review screen renders.
  The pathway is what it was before the call when no pathway response has succeeded
  between the call and the failure (\<open>evs\<close> holds any other events, the user's included:
  the loading step has a Back button). On the first attempt the pathway is still \<open>None\<close>,
  as in the example below.
\<close>

theorem generate_pathway_failure:
  assumes "step (Click BtnGenerate) s = Some s1"
    and "run evs s1 = Some s2"
    and "step (Settle i Failed) s2 = Some s3"
    and "\<not> isDecode (outstanding s2 ! i)"
  shows "screen s3 = 6 \<and> errorMsg s3 = ''Failed to generate pathway.''
     \<and> errorText (renderScreen s3) = ''Failed to generate pathway.''
     \<and> (list_all noPathwayOk evs \<longrightarrow> pathway s3 = pathway s)"
proof -
  from settle_pathway_failed [OF assms(3) assms(4)]
  have s3: "screen s3 = 6" "errorMsg s3 = ''Failed to generate pathway.''"
    "pathway s3 = pathway s2" by simp_all
  then have shown: "errorText (renderScreen s3) = ''Failed to generate pathway.''"
    by (simp add: renderScreen_def Container_def)
  have "pathway s3 = pathway s" if n: "list_all noPathwayOk evs"
  proof -
    from assms(1) have "pathway s1 = pathway s"
      by (auto simp: handleGeneratePathway_begin_def split: if_splits)
    with run_pathway [OF n assms(2)] s3(3) show ?thesis by simp
  qed
  with s3 shown show ?thesis by blast
qed

theorem generate_pathway_failure_witness:
  "step (Click BtnGenerate)
        (initial\<lparr>screen := 6,
           vehicleData := \<lparr>year = JNum 2015, make' = JStr ''Toyota'', model = JStr ''Camry''\<rparr>\<rparr>)
     = Some (initial\<lparr>screen := 8,
           vehicleData := \<lparr>year = JNum 2015, make' = JStr ''Toyota'', model = JStr ''Camry''\<rparr>,
           outstanding := [GeneratePathway
             \<lparr>year = JNum 2015, make' = JStr ''Toyota'', model = JStr ''Camry''\<rparr> initialMaterials]\<rparr>)
   \<and> list_all noPathwayOk [Click BtnBack]
   \<and> run [Click BtnBack]
        (initial\<lparr>screen := 8,
           vehicleData := \<lparr>year = JNum 2015, make' = JStr ''Toyota'', model = JStr ''Camry''\<rparr>,
           outstanding := [GeneratePathway
             \<lparr>year = JNum 2015, make' = JStr ''Toyota'', model = JStr ''Camry''\<rparr> initialMaterials]\<rparr>)
     = Some (initial\<lparr>screen := 7,
           vehicleData := \<lparr>year = JNum 2015, make' = JStr ''Toyota'', model = JStr ''Camry''\<rparr>,
           outstanding := [GeneratePathway
             \<lparr>year = JNum 2015, make' = JStr ''Toyota'', model = JStr ''Camry''\<rparr> initialMaterials]\<rparr>)
   \<and> step (Settle 0 Failed)
        (initial\<lparr>screen := 7,
           vehicleData := \<lparr>year = JNum 2015, make' = JStr ''Toyota'', model = JStr ''Camry''\<rparr>,
           outstanding := [GeneratePathway
             \<lparr>year = JNum 2015, make' = JStr ''Toyota'', model = JStr ''Camry''\<rparr> initialMaterials]\<rparr>)
     = Some (initial\<lparr>screen := 6,
           errorMsg := ''Failed to generate pathway.'',
           vehicleData := \<lparr>year = JNum 2015, make' = JStr ''Toyota'', model = JStr ''Camry''\<rparr>\<rparr>)
   \<and> \<not> isDecode (outstanding (initial\<lparr>screen := 7,
           vehicleData := \<lparr>year = JNum 2015, make' = JStr ''Toyota'', model = JStr ''Camry''\<rparr>,
           outstanding := [GeneratePathway
             \<lparr>year = JNum 2015, make' = JStr ''Toyota'', model = JStr ''Camry''\<rparr> initialMaterials]\<rparr>) ! 0)
   \<and> pathway (initial\<lparr>screen := 6,
           errorMsg := ''Failed to generate pathway.'',
           vehicleData := \<lparr>year = JNum 2015, make' = JStr ''Toyota'', model = JStr ''Camry''\<rparr>\<rparr>) = None"
  (is "?h1 \<and> ?h2 \<and> ?h3 \<and> ?h4 \<and> ?h5 \<and> ?c")
proof -
  have h1: ?h1 by (simp add: eval_defs)
  have h2: ?h2 by simp
  have h3: ?h3 by (simp add: eval_defs)
  have h4: ?h4 by (simp add: eval_defs)
  have h5: ?h5 by simp
  from generate_pathway_failure [OF h1 h3 h4 h5] h2 have "?c" by (simp add: initial_def)
  with h1 h2 h3 h4 h5 show ?thesis by blast
qed

text \<open>
  The claim as written (pathway unchanged after every failed request) fails with two
  overlapping requests: generate, go back from the loading step, save and generate again.
  The pathway is \<open>None\<close> before the second call; the first request then succeeds and the
  second fails, and the pathway holds the first response after the failure.
\<close>

theorem generate_pathway_failure_counterexample:
  "run [Click BtnStart, Change InpVin ''1hgbh'', Click BtnProceed,
        Settle 0 (DecodeOk \<lparr>year = JNum 2015, make' = JStr ''Toyota'', model = JStr ''Camry''\<rparr>),
        Click BtnYes, Click BtnManual, Click BtnSave, Click BtnGenerate,
        Click BtnBack, Click BtnSave] initial
     = Some (initial\<lparr>screen := 6,
           vin := ''1HGBH'',
           vehicleData := \<lparr>year = JNum 2015, make' = JStr ''Toyota'', model = JStr ''Camry''\<rparr>,
           outstanding := [GeneratePathway
             \<lparr>year = JNum 2015, make' = JStr ''Toyota'', model = JStr ''Camry''\<rparr> initialMaterials]\<rparr>)
   \<and> pathway (initial\<lparr>screen := 6,
           vin := ''1HGBH'',
           vehicleData := \<lparr>year = JNum 2015, make' = JStr ''Toyota'', model = JStr ''Camry''\<rparr>,
           outstanding := [GeneratePathway
             \<lparr>year = JNum 2015, make' = JStr ''Toyota'', model = JStr ''Camry''\<rparr> initialMaterials]\<rparr>) = None
   \<and> step (Click BtnGenerate)
        (initial\<lparr>screen := 6,
           vin := ''1HGBH'',
           vehicleData := \<lparr>year = JNum 2015, make' = JStr ''Toyota'', model = JStr ''Camry''\<rparr>,
           outstanding := [GeneratePathway
             \<lparr>year = JNum 2015, make' = JStr ''Toyota'', model = JStr ''Camry''\<rparr> initialMaterials]\<rparr>)
     = Some (initial\<lparr>screen := 8,
           vin := ''1HGBH'',
           vehicleData := \<lparr>year = JNum 2015, make' = JStr ''Toyota'', model = JStr ''Camry''\<rparr>,
           outstanding := [GeneratePathway
             \<lparr>year = JNum 2015, make' = JStr ''Toyota'', model = JStr ''Camry''\<rparr> initialMaterials,
             GeneratePathway
             \<lparr>year = JNum 2015, make' = JStr ''Toyota'', model = JStr ''Camry''\<rparr> initialMaterials]\<rparr>)
   \<and> run [Settle 0 (PathwayOk [\<lparr>sequence = 1, action = ''Dismantle'', projected_profit = 120.50\<rparr>])]
        (initial\<lparr>screen := 8,
           vin := ''1HGBH'',
           vehicleData := \<lparr>year = JNum 2015, make' = JStr ''Toyota'', model = JStr ''Camry''\<rparr>,
           outstanding := [GeneratePathway
             \<lparr>year = JNum 2015, make' = JStr ''Toyota'', model = JStr ''Camry''\<rparr> initialMaterials,
             GeneratePathway
             \<lparr>year = JNum 2015, make' = JStr ''Toyota'', model = JStr ''Camry''\<rparr> initialMaterials]\<rparr>)
     = Some (initial\<lparr>screen := 9,
           vin := ''1HGBH'',
           vehicleData := \<lparr>year = JNum 2015, make' = JStr ''Toyota'', model = JStr ''Camry''\<rparr>,
           pathway := Some [\<lparr>sequence = 1, action = ''Dismantle'', projected_profit = 120.50\<rparr>],
           outstanding := [GeneratePathway
             \<lparr>year = JNum 2015, make' = JStr ''Toyota'', model = JStr ''Camry''\<rparr> initialMaterials]\<rparr>)
   \<and> step (Settle 0 Failed)
        (initial\<lparr>screen := 9,
           vin := ''1HGBH'',
           vehicleData := \<lparr>year = JNum 2015, make' = JStr ''Toyota'', model = JStr ''Camry''\<rparr>,
           pathway := Some [\<lparr>sequence = 1, action = ''Dismantle'', projected_profit = 120.50\<rparr>],
           outstanding := [GeneratePathway
             \<lparr>year = JNum 2015, make' = JStr ''Toyota'', model = JStr ''Camry''\<rparr> initialMaterials]\<rparr>)
     = Some (initial\<lparr>screen := 6,
           errorMsg := ''Failed to generate pathway.'',
           vin := ''1HGBH'',
           vehicleData := \<lparr>year = JNum 2015, make' = JStr ''Toyota'', model = JStr ''Camry''\<rparr>,
           pathway := Some [\<lparr>sequence = 1, action = ''Dismantle'', projected_profit = 120.50\<rparr>]\<rparr>)
   \<and> pathway (initial\<lparr>screen := 6,
           errorMsg := ''Failed to generate pathway.'',
           vin := ''1HGBH'',
           vehicleData := \<lparr>year = JNum 2015, make' = JStr ''Toyota'', model = JStr ''Camry''\<rparr>,
           pathway := Some [\<lparr>sequence = 1, action = ''Dismantle'', projected_profit = 120.50\<rparr>]\<rparr>) = Some [\<lparr>sequence = 1, action = ''Dismantle'', projected_profit = 120.50\<rparr>]"
  by (simp add: eval_defs)

text \<open>
  C6. With the vehicle 2015 Toyota Camry and the materials Steel 60, Aluminum 10, Copper 5,
  Plastics 15, Rubber 5, Glass 5, Generate posts exactly this vehicle and these materials;
  when the response with the pathway Dismantle 120.50, Shred -30.00 arrives the state has
  Step 9, the pathway is that array and the profit summary shows 90.50. The three numbers
  120.5, -30 and 90.5 are binary fractions, so the sum is exact in JavaScript as well.
\<close>

theorem generate_pathway_success:
  assumes "vehicleData s = \<lparr>year = JNum 2015, make' = JStr ''Toyota'', model = JStr ''Camry''\<rparr>"
    and "materials s = [(''Steel'', JNum 60), (''Aluminum'', JNum 10), (''Copper'', JNum 5),
           (''Plastics'', JNum 15), (''Rubber'', JNum 5), (''Glass'', JNum 5)]"
    and "step (Click BtnGenerate) s = Some s1"
    and "run evs s1 = Some s2"
    and "step (Settle i (PathwayOk
           [\<lparr>sequence = 1, action = ''Dismantle'', projected_profit = 120.50\<rparr>,
            \<lparr>sequence = 2, action = ''Shred'', projected_profit = - 30.00\<rparr>])) s2 = Some s3"
  shows "outstanding s1 = outstanding s @
           [GeneratePathway \<lparr>year = JNum 2015, make' = JStr ''Toyota'', model = JStr ''Camry''\<rparr>
             [(''Steel'', JNum 60), (''Aluminum'', JNum 10), (''Copper'', JNum 5),
              (''Plastics'', JNum 15), (''Rubber'', JNum 5), (''Glass'', JNum 5)]]
     \<and> screen s3 = 9
     \<and> pathway s3 = Some
           [\<lparr>sequence = 1, action = ''Dismantle'', projected_profit = 120.50\<rparr>,
            \<lparr>sequence = 2, action = ''Shred'', projected_profit = - 30.00\<rparr>]
     \<and> profitValue (renderScreen s3) = Some ''90.50''"
proof -
  from assms(3) have "s1 = handleGeneratePathway_begin s" by (auto split: if_splits)
  with assms(1,2) have req: "outstanding s1 = outstanding s @
           [GeneratePathway \<lparr>year = JNum 2015, make' = JStr ''Toyota'', model = JStr ''Camry''\<rparr>
             [(''Steel'', JNum 60), (''Aluminum'', JNum 10), (''Copper'', JNum 5),
              (''Plastics'', JNum 15), (''Rubber'', JNum 5), (''Glass'', JNum 5)]]"
    by (simp add: handleGeneratePathway_begin_def)
  from settle_pathway_ok [OF assms(5)]
  have s3: "screen s3 = 9" "pathway s3 = Some
           [\<lparr>sequence = 1, action = ''Dismantle'', projected_profit = 120.50\<rparr>,
            \<lparr>sequence = 2, action = ''Shred'', projected_profit = - 30.00\<rparr>]"
    by simp_all
  have "totalProfit (pathway s3) = Some ''90.50''"
    unfolding s3(2) by (simp add: totalProfit_def toFixed2_def Let_def natToString_9050)
  with s3(1) have "profitValue (renderScreen s3) = Some ''90.50''"
    by (simp add: renderScreen_def Container_def)
  with req s3 show ?thesis by simp
qed

theorem generate_pathway_success_witness:
  "run [Click BtnStart, Change InpVin ''1hgbh41jxmn109186'', Click BtnProceed,
        Settle 0 (DecodeOk \<lparr>year = JNum 2015, make' = JStr ''Toyota'', model = JStr ''Camry''\<rparr>),
        Click BtnYes, Click BtnManual,
        Change (InpMaterial ''Steel'') ''60'', Blur (InpMaterial ''Steel'') ''60'' (Some 60),
        Blur (InpMaterial ''Aluminum'') ''10'' (Some 10),
        Blur (InpMaterial ''Copper'') ''5'' (Some 5),
        Blur (InpMaterial ''Plastics'') ''15'' (Some 15),
        Blur (InpMaterial ''Rubber'') ''5'' (Some 5),
        Blur (InpMaterial ''Glass'') ''5'' (Some 5),
        Click BtnSave] initial
     = Some (initial\<lparr>screen := 6, vin := ''1HGBH41JXMN109186'',
          vehicleData := \<lparr>year = JNum 2015, make' = JStr ''Toyota'', model = JStr ''Camry''\<rparr>,
          materials := [(''Steel'', JNum 60), (''Aluminum'', JNum 10), (''Copper'', JNum 5),
             (''Plastics'', JNum 15), (''Rubber'', JNum 5), (''Glass'', JNum 5)]\<rparr>)
   \<and> step (Click BtnGenerate)
        (initial\<lparr>screen := 6, vin := ''1HGBH41JXMN109186'',
          vehicleData := \<lparr>year = JNum 2015, make' = JStr ''Toyota'', model = JStr ''Camry''\<rparr>,
          materials := [(''Steel'', JNum 60), (''Aluminum'', JNum 10), (''Copper'', JNum 5),
             (''Plastics'', JNum 15), (''Rubber'', JNum 5), (''Glass'', JNum 5)]\<rparr>)
     = Some (initial\<lparr>screen := 8, vin := ''1HGBH41JXMN109186'',
          vehicleData := \<lparr>year = JNum 2015, make' = JStr ''Toyota'', model = JStr ''Camry''\<rparr>,
          materials := [(''Steel'', JNum 60), (''Aluminum'', JNum 10), (''Copper'', JNum 5),
             (''Plastics'', JNum 15), (''Rubber'', JNum 5), (''Glass'', JNum 5)],
          outstanding := [GeneratePathway
             \<lparr>year = JNum 2015, make' = JStr ''Toyota'', model = JStr ''Camry''\<rparr>
             [(''Steel'', JNum 60), (''Aluminum'', JNum 10), (''Copper'', JNum 5),
              (''Plastics'', JNum 15), (''Rubber'', JNum 5), (''Glass'', JNum 5)]]\<rparr>)
   \<and> step (Settle 0 (PathwayOk
           [\<lparr>sequence = 1, action = ''Dismantle'', projected_profit = 120.50\<rparr>,
            \<lparr>sequence = 2, action = ''Shred'', projected_profit = - 30.00\<rparr>]))
        (initial\<lparr>screen := 8, vin := ''1HGBH41JXMN109186'',
          vehicleData := \<lparr>year = JNum 2015, make' = JStr ''Toyota'', model = JStr ''Camry''\<rparr>,
          materials := [(''Steel'', JNum 60), (''Aluminum'', JNum 10), (''Copper'', JNum 5),
             (''Plastics'', JNum 15), (''Rubber'', JNum 5), (''Glass'', JNum 5)],
          outstanding := [GeneratePathway
             \<lparr>year = JNum 2015, make' = JStr ''Toyota'', model = JStr ''Camry''\<rparr>
             [(''Steel'', JNum 60), (''Aluminum'', JNum 10), (''Copper'', JNum 5),
              (''Plastics'', JNum 15), (''Rubber'', JNum 5), (''Glass'', JNum 5)]]\<rparr>)
     = Some (initial\<lparr>screen := 9, vin := ''1HGBH41JXMN109186'',
          vehicleData := \<lparr>year = JNum 2015, make' = JStr ''Toyota'', model = JStr ''Camry''\<rparr>,
          materials := [(''Steel'', JNum 60), (''Aluminum'', JNum 10), (''Copper'', JNum 5),
             (''Plastics'', JNum 15), (''Rubber'', JNum 5), (''Glass'', JNum 5)],
          pathway := Some
           [\<lparr>sequence = 1, action = ''Dismantle'', projected_profit = 120.50\<rparr>,
            \<lparr>sequence = 2, action = ''Shred'', projected_profit = - 30.00\<rparr>]\<rparr>)
   \<and> profitValue (renderScreen (initial\<lparr>screen := 9, vin := ''1HGBH41JXMN109186'',
          vehicleData := \<lparr>year = JNum 2015, make' = JStr ''Toyota'', model = JStr ''Camry''\<rparr>,
          materials := [(''Steel'', JNum 60), (''Aluminum'', JNum 10), (''Copper'', JNum 5),
             (''Plastics'', JNum 15), (''Rubber'', JNum 5), (''Glass'', JNum 5)],
          pathway := Some
           [\<lparr>sequence = 1, action = ''Dismantle'', projected_profit = 120.50\<rparr>,
            \<lparr>sequence = 2, action = ''Shred'', projected_profit = - 30.00\<rparr>]\<rparr>))
       = Some ''90.50''"
  (is "?r \<and> ?h3 \<and> ?h5 \<and> ?c")
proof -
  have r: ?r by (simp add: eval_defs)
  have h3: ?h3 by (simp add: eval_defs)
  have h5: ?h5 by (simp add: eval_defs)
  have h4: "run [] (initial\<lparr>screen := 8, vin := ''1HGBH41JXMN109186'',
          vehicleData := \<lparr>year = JNum 2015, make' = JStr ''Toyota'', model = JStr ''Camry''\<rparr>,
          materials := [(''Steel'', JNum 60), (''Aluminum'', JNum 10), (''Copper'', JNum 5),
             (''Plastics'', JNum 15), (''Rubber'', JNum 5), (''Glass'', JNum 5)],
          outstanding := [GeneratePathway
             \<lparr>year = JNum 2015, make' = JStr ''Toyota'', model = JStr ''Camry''\<rparr>
             [(''Steel'', JNum 60), (''Aluminum'', JNum 10), (''Copper'', JNum 5),
              (''Plastics'', JNum 15), (''Rubber'', JNum 5), (''Glass'', JNum 5)]]\<rparr>)
     = Some (initial\<lparr>screen := 8, vin := ''1HGBH41JXMN109186'',
          vehicleData := \<lparr>year = JNum 2015, make' = JStr ''Toyota'', model = JStr ''Camry''\<rparr>,
          materials := [(''Steel'', JNum 60), (''Aluminum'', JNum 10), (''Copper'', JNum 5),
             (''Plastics'', JNum 15), (''Rubber'', JNum 5), (''Glass'', JNum 5)],
          outstanding := [GeneratePathway
             \<lparr>year = JNum 2015, make' = JStr ''Toyota'', model = JStr ''Camry''\<rparr>
             [(''Steel'', JNum 60), (''Aluminum'', JNum 10), (''Copper'', JNum 5),
              (''Plastics'', JNum 15), (''Rubber'', JNum 5), (''Glass'', JNum 5)]]\<rparr>)"
    by simp
  have c: ?c
    using generate_pathway_success [OF _ _ h3 h4 h5] by simp
  with r h3 h5 show ?thesis by blast
qed

text \<open>
  C7 (as the code has it). On Step 8 the loading screen is wrapped in \<open>Container\<close>, which
  renders the Back button on every step above 1. Back is therefore the one enabled control
  of the loading step; clicking it moves to Step 7 while the request stays outstanding.
\<close>

theorem loading_screen_back_only:
  "screen s = 8 \<Longrightarrow>
     controls (renderScreen s) = [BtnBack]
     \<and> step (Click BtnBack) s = Some (s\<lparr>screen := 7\<rparr>)"
  by (simp add: renderScreen_def Container_def)

theorem loading_screen_back_only_witness:
  "screen (initial\<lparr>screen := 8, outstanding := [GeneratePathway
       \<lparr>year = JNum 2015, make' = JStr ''Toyota'', model = JStr ''Camry''\<rparr> initialMaterials]\<rparr>) = 8
   \<and> controls (renderScreen (initial\<lparr>screen := 8, outstanding := [GeneratePathway
       \<lparr>year = JNum 2015, make' = JStr ''Toyota'', model = JStr ''Camry''\<rparr> initialMaterials]\<rparr>))
       = [BtnBack]
   \<and> step (Click BtnBack) (initial\<lparr>screen := 8, outstanding := [GeneratePathway
       \<lparr>year = JNum 2015, make' = JStr ''Toyota'', model = JStr ''Camry''\<rparr> initialMaterials]\<rparr>)
       = Some (initial\<lparr>screen := 7, outstanding := [GeneratePathway
       \<lparr>year = JNum 2015, make' = JStr ''Toyota'', model = JStr ''Camry''\<rparr> initialMaterials]\<rparr>)"
  (is "?h \<and> ?c")
proof -
  have h: ?h by simp
  from loading_screen_back_only [OF h] h show ?thesis by simp
qed

text \<open>
  The claim as written (no enabled user action on Step 8, Back included) fails on the
  state reached by generating a pathway from the initial state: Back is offered there, and
  clicking it is accepted and leads to Step 7.
\<close>

theorem loading_screen_counterexample:
  "map_option (controls \<circ> renderScreen)
     (run [Click BtnStart, Change InpVin ''1hgbh'', Click BtnProceed,
           Settle 0 (DecodeOk \<lparr>year = JNum 2015, make' = JStr ''Toyota'', model = JStr ''Camry''\<rparr>),
           Click BtnYes, Click BtnManual, Click BtnSave, Click BtnGenerate] initial)
     = Some [BtnBack]
   \<and> map_option screen
     (run [Click BtnStart, Change InpVin ''1hgbh'', Click BtnProceed,
           Settle 0 (DecodeOk \<lparr>year = JNum 2015, make' = JStr ''Toyota'', model = JStr ''Camry''\<rparr>),
           Click BtnYes, Click BtnManual, Click BtnSave, Click BtnGenerate] initial)
     = Some 8
   \<and> map_option screen
     (run [Click BtnStart, Change InpVin ''1hgbh'', Click BtnProceed,
           Settle 0 (DecodeOk \<lparr>year = JNum 2015, make' = JStr ''Toyota'', model = JStr ''Camry''\<rparr>),
           Click BtnYes, Click BtnManual, Click BtnSave, Click BtnGenerate,
           Click BtnBack] initial)
     = Some 7"
  by (simp add: eval_defs renderScreen_def Container_def)

text \<open>
  C8. On Step 9 "Process Next Vehicle" is enabled; clicking it sets Step 1 and leaves the
  vehicle record, the material composition and the pathway as they were.
\<close>

theorem process_next_vehicle:
  "screen s = 9 \<Longrightarrow>
     step (Click BtnNext) s = Some (onClick BtnNext s) \<and> screen (onClick BtnNext s) = 1
     \<and> vehicleData (onClick BtnNext s) = vehicleData s
     \<and> materials (onClick BtnNext s) = materials s
     \<and> pathway (onClick BtnNext s) = pathway s"
  by simp

theorem process_next_vehicle_witness:
  "screen (initial\<lparr>screen := 9,
       vehicleData := \<lparr>year = JNum 2015, make' = JStr ''Toyota'', model = JStr ''Camry''\<rparr>,
       pathway := Some [\<lparr>sequence = 1, action = ''Dismantle'', projected_profit = 120.50\<rparr>]\<rparr>) = 9
   \<and> step (Click BtnNext) (initial\<lparr>screen := 9,
       vehicleData := \<lparr>year = JNum 2015, make' = JStr ''Toyota'', model = JStr ''Camry''\<rparr>,
       pathway := Some [\<lparr>sequence = 1, action = ''Dismantle'', projected_profit = 120.50\<rparr>]\<rparr>)
     = Some (initial\<lparr>screen := 1,
       vehicleData := \<lparr>year = JNum 2015, make' = JStr ''Toyota'', model = JStr ''Camry''\<rparr>,
       pathway := Some [\<lparr>sequence = 1, action = ''Dismantle'', projected_profit = 120.50\<rparr>]\<rparr>)"
  (is "?h \<and> ?c")
proof -
  have h: ?h by simp
  from process_next_vehicle [OF h] h show ?thesis by simp
qed

text \<open>
  C9 (as the code has it). In every state reachable from the initial one at most one VIN
  decode request is outstanding: Proceed is disabled while \<open>isLoading\<close> is set, and the
  flag is set exactly while a decode is in flight. Pathway generation has no such flag.
\<close>

theorem one_decode_in_flight:
  "run evs initial = Some s \<Longrightarrow> length (filter isDecode (outstanding s)) \<le> 1"
  using run_decode_flag [of evs initial s] by (simp add: initial_def split: if_splits)

theorem one_decode_in_flight_witness:
  "run [Click BtnStart, Change InpVin ''1hgbh'', Click BtnProceed] initial
     = Some (initial\<lparr>screen := 2, isLoading := True, vin := ''1HGBH'',
          outstanding := [DecodeVin ''1HGBH'']\<rparr>)
   \<and> length (filter isDecode (outstanding
        (initial\<lparr>screen := 2, isLoading := True, vin := ''1HGBH'',
          outstanding := [DecodeVin ''1HGBH'']\<rparr>))) = 1"
  (is "?h \<and> ?c")
proof -
  have h: ?h by (simp add: eval_defs)
  from one_decode_in_flight [OF h] have "?c" by simp
  with h show ?thesis by blast
qed

text \<open>
  The claim as written (at most one network call in flight) fails: from the loading step
  the user can go back to the review step and generate again, and further back to the VIN
  step and submit. The run below ends with two pathway requests and one decode request
  outstanding at the same time.
\<close>

theorem one_call_in_flight_counterexample:
  "map_option outstanding
     (run [Click BtnStart, Change InpVin ''1hgbh'', Click BtnProceed,
           Settle 0 (DecodeOk \<lparr>year = JNum 2015, make' = JStr ''Toyota'', model = JStr ''Camry''\<rparr>),
           Click BtnYes, Click BtnManual, Click BtnSave,
           Click BtnGenerate, Click BtnBack, Click BtnSave,
           Click BtnGenerate, Click BtnBack, Click BtnBack, Click BtnBack, Click BtnBack,
           Click BtnBack, Click BtnBack,
           Click BtnProceed] initial)
     = Some [GeneratePathway \<lparr>year = JNum 2015, make' = JStr ''Toyota'', model = JStr ''Camry''\<rparr>
               initialMaterials,
             GeneratePathway \<lparr>year = JNum 2015, make' = JStr ''Toyota'', model = JStr ''Camry''\<rparr>
               initialMaterials,
             DecodeVin ''1HGBH'']"
  by (simp add: eval_defs)

text \<open>
  C10. When a VIN decode request settles, with a vehicle or with a failure, \<open>isLoading\<close>
  is false afterwards. On the VIN step the Proceed button is disabled exactly when
  \<open>isLoading\<close> is set or the VIN has fewer than 5 characters, so a failed decode does not
  leave it disabled for good.
\<close>

theorem vin_submit_flag_reset:
  assumes "step (Settle i r) s = Some s'"
    and "isDecode (outstanding s ! i)"
    and "screen t = 2"
  shows "\<not> isLoading s' \<and> ((\<not> enabled t BtnProceed) = (isLoading t \<or> length (vin t) < 5))"
proof -
  from assms(1,2) have "\<not> isLoading s'"
    by (cases r; cases "outstanding s ! i") (auto simp: handler_defs split: if_splits)
  with assms(3) show ?thesis by auto
qed

theorem vin_submit_flag_reset_witness:
  "step (Settle 0 Failed)
        (initial\<lparr>screen := 2, isLoading := True, vin := ''1HGBH'',
           outstanding := [DecodeVin ''1HGBH'']\<rparr>)
     = Some (initial\<lparr>screen := 3, vin := ''1HGBH''\<rparr>)
   \<and> isDecode (outstanding (initial\<lparr>screen := 2, isLoading := True, vin := ''1HGBH'',
           outstanding := [DecodeVin ''1HGBH'']\<rparr>) ! 0)
   \<and> screen (initial\<lparr>screen := 2, vin := ''1HGBH''\<rparr>) = 2
   \<and> \<not> isLoading (initial\<lparr>screen := 3, vin := ''1HGBH''\<rparr>)
   \<and> enabled (initial\<lparr>screen := 2, vin := ''1HGBH''\<rparr>) BtnProceed"
  (is "?h1 \<and> ?h2 \<and> ?h3 \<and> ?c1 \<and> ?c2")
proof -
  have h1: ?h1 by (simp add: eval_defs)
  have h2: ?h2 by simp
  have h3: ?h3 by simp
  from vin_submit_flag_reset [OF h1 h2 h3] have "?c1 \<and> ?c2" by (simp add: initial_def)
  with h1 h2 h3 show ?thesis by blast
qed

end
